theory Spec2Isabelle
  imports Complex_Main
begin

section \<open>Numbers, vectors and the interpolation primitives\<close>

text \<open>
  The scene is written in TypeScript over three.js. A JavaScript \<open>number\<close> is modelled as
  a real (rounding is not modelled), a \<open>THREE.Vector3\<close> as a triple of reals, and a
  \<open>Float32Array\<close> of coordinates as a function from the index to the number stored there.
\<close>

datatype Vector3 = Vector3 (vec_x: real) (vec_y: real) (vec_z: real)

datatype Euler = Euler (eul_x: real) (eul_y: real) (eul_z: real)

text \<open>\<open>Vector3.lerpVectors(v1, v2, alpha)\<close> of three.js: \<open>v1 + (v2 - v1) * alpha\<close>, by component.\<close>

definition lerpVectors :: "Vector3 \<Rightarrow> Vector3 \<Rightarrow> real \<Rightarrow> Vector3" where
  "lerpVectors v1 v2 alpha =
     Vector3 (vec_x v1 + (vec_x v2 - vec_x v1) * alpha)
             (vec_y v1 + (vec_y v2 - vec_y v1) * alpha)
             (vec_z v1 + (vec_z v2 - vec_z v1) * alpha)"

text \<open>\<open>Vector3.lerp(v, alpha)\<close> of three.js: \<open>this += (v - this) * alpha\<close>, by component.\<close>

definition Vector3_lerp :: "Vector3 \<Rightarrow> Vector3 \<Rightarrow> real \<Rightarrow> Vector3" where
  "Vector3_lerp this v alpha =
     Vector3 (vec_x this + (vec_x v - vec_x this) * alpha)
             (vec_y this + (vec_y v - vec_y this) * alpha)
             (vec_z this + (vec_z v - vec_z this) * alpha)"

text \<open>\<open>Vector3.multiplyScalar(s)\<close> of three.js.\<close>

definition multiplyScalar :: "Vector3 \<Rightarrow> real \<Rightarrow> Vector3" where
  "multiplyScalar v s = Vector3 (vec_x v * s) (vec_y v * s) (vec_z v * s)"

text \<open>\<open>THREE.MathUtils.lerp(x, y, t)\<close>: \<open>(1 - t) * x + t * y\<close>.\<close>

definition MathUtils_lerp :: "real \<Rightarrow> real \<Rightarrow> real \<Rightarrow> real" where
  "MathUtils_lerp x y t = (1 - t) * x + t * y"

text \<open>
  Modelled from the spec: the helper \<open>lerp\<close> that \<open>Ornaments\<close> and \<open>SpiralLights\<close> import
  from \<open>utils/math\<close>, a file that is not among the sources. The specification gives the
  smoothing law as \<open>newCurrent = current + (target - current) * min(rate*dt, 1)\<close>; the
  callers pass \<open>rate*dt\<close> as the third argument.
\<close>

definition lerp :: "real \<Rightarrow> real \<Rightarrow> real \<Rightarrow> real" where
  "lerp current target t = current + (target - current) * min t 1"

section \<open>App: gesture intake and image intake\<close>

record Point2 =
  px :: real
  py :: real

record HandGesture =
  isDetected :: bool
  isOpen :: bool
  position :: Point2

record App_state =
  targetMix :: real
  inputRef :: Point2
  gestureDetected :: bool
  debugMode :: bool
  userImages :: "string list"

text \<open>The state the component starts from: formed, pointer at the origin, no images.\<close>

definition App_init :: App_state where
  "App_init = \<lparr>targetMix = 1, inputRef = \<lparr>px = 0, py = 0\<rparr>, gestureDetected = False,
               debugMode = False, userImages = []\<rparr>"

definition handleGesture :: "HandGesture \<Rightarrow> App_state \<Rightarrow> App_state" where
  "handleGesture data s =
     (let s1 = s\<lparr>gestureDetected := isDetected data\<rparr>
      in if isDetected data then
           let newTarget = (if isOpen data then 0 else 1) :: real;
               s2 = s1\<lparr>targetMix := (if targetMix s1 \<noteq> newTarget then newTarget else targetMix s1)\<rparr>
           in s2\<lparr>inputRef := \<lparr>px = px (position data) * 1.2, py = py (position data)\<rparr>\<rparr>
         else s1)"

text \<open>\<open>toggleState\<close> of the mobile button.\<close>

definition toggleState :: "App_state \<Rightarrow> App_state" where
  "toggleState s = s\<lparr>targetMix := (if targetMix s = 1 then 0 else 1)\<rparr>"

text \<open>
  \<open>handleFileChange\<close>: \<open>files\<close> is \<open>e.target.files\<close> (\<open>None\<close> for null), and
  \<open>createObjectURL\<close> stands for the browser's \<open>URL.createObjectURL\<close>.
\<close>

definition handleFileChange :: "('f \<Rightarrow> string) \<Rightarrow> 'f list option \<Rightarrow> App_state \<Rightarrow> App_state" where
  "handleFileChange createObjectURL files s =
     (case files of
        None \<Rightarrow> s
      | Some fs \<Rightarrow>
          if length fs > 0 then
            let files' = take 30 fs;
                urls = map createObjectURL files'
            in s\<lparr>userImages := urls\<rparr>
          else s)"

section \<open>The scene graph objects the frame callbacks write\<close>

text \<open>
  An orientation is recorded as the three.js calls that produced it: \<open>LookAt p target\<close> is
  what \<open>Object3D.lookAt(target)\<close> gives an object placed at \<open>p\<close>, \<open>RotateX\<close> and
  \<open>RotateY\<close> are the local rotations applied afterwards, \<open>FromEuler\<close> is
  \<open>rotation.copy\<close>, and \<open>Unrotated\<close> is the rotation of a fresh \<open>Object3D\<close>.
\<close>

datatype Orientation =
    Unrotated
  | FromEuler Euler
  | LookAt Vector3 Vector3
  | RotateX Orientation real
  | RotateY Orientation real

record Object3D =
  obj_position :: Vector3
  obj_orientation :: Orientation
  obj_scale :: Vector3

text \<open>
  An \<open>InstancedMesh\<close> is the matrix stored for each instance index; the matrix of the
  dummy object is kept as the position, orientation and scale it was composed from.
  The colours of the instances play no part in the motion and are left out.
\<close>

type_synonym InstancedMesh = "nat \<Rightarrow> Object3D option"

definition setMatrixAt :: "nat \<Rightarrow> Object3D \<Rightarrow> InstancedMesh \<Rightarrow> InstancedMesh" where
  "setMatrixAt i m mesh = mesh(i \<mapsto> m)"

text \<open>The direction from an object to the point it looks at.\<close>

definition lookDirection :: "Vector3 \<Rightarrow> Vector3 \<Rightarrow> Vector3" where
  "lookDirection p target =
     Vector3 (vec_x target - vec_x p) (vec_y target - vec_y p) (vec_z target - vec_z p)"

section \<open>Ornaments: the generated data\<close>

datatype OrnamentType = BALL | BOX | STAR | CANDY | CRYSTAL | PHOTO

record OrnamentData =
  chaosPos :: Vector3
  targetPos :: Vector3
  rotation :: Euler
  color :: "string option"
  targetScale :: Vector3
  chaosScale :: Vector3
  chaosTilt :: real

text \<open>
  The values that \<open>Math.random()\<close> returns while one object is generated, one field for
  each call in the loop body, each a number in \<open>[0, 1)\<close>. \<open>r_sphere\<close> is the point that
  \<open>randomVector3(25)\<close> returns (a helper of \<open>utils/math\<close>, not among the sources).
\<close>

record Draws =
  r_theta :: real
  r_radius :: real
  r_height :: real
  r_tilt :: real
  r_sphere :: Vector3
  r_color :: real
  r_scale :: real
  r_photoScale :: real
  r_rotx :: real
  r_roty :: real

definition unit_draw :: "real \<Rightarrow> bool" where
  "unit_draw u = (0 \<le> u \<and> u < 1)"

text \<open>\<open>colors[Math.floor(Math.random() * colors.length)]\<close>; \<open>None\<close> is \<open>undefined\<close>.\<close>

definition pickColor :: "string list \<Rightarrow> real \<Rightarrow> string option" where
  "pickColor colors u =
     (let k = nat \<lfloor>u * real (length colors)\<rfloor>
      in if k < length colors then Some (colors ! k) else None)"

text \<open>
  The body of the generating loop for the object of index \<open>i\<close>. \<open>target\<close> is the flat
  coordinate array that \<open>generateFoliageData(count, 18, 7)\<close> returns.
\<close>

definition Ornaments_item ::
  "OrnamentType \<Rightarrow> string list option \<Rightarrow> real \<Rightarrow> (nat \<Rightarrow> real) \<Rightarrow> Draws \<Rightarrow> nat \<Rightarrow> OrnamentData" where
  "Ornaments_item type colors scale target d i =
     (let tPos = multiplyScalar (Vector3 (target (i*3)) (target (i*3+1)) (target (i*3+2)))
                   (if type = STAR then 1.15 else 1.08);
          theta = r_theta d * pi * 2;
          radius = 14 + r_radius d * 4;
          yHeight = (r_height d - 0.5) * 20;
          cPos = (if type = PHOTO
                  then Vector3 (radius * cos theta) yHeight (radius * sin theta)
                  else r_sphere d);
          tilt = (if type = PHOTO then (r_tilt d - 0.5) * 0.5 else 0);
          colorHex = (case colors of Some cs \<Rightarrow> pickColor cs (r_color d)
                      | None \<Rightarrow> Some ''#ffffff'');
          randScale = r_scale d * 0.4 + 0.8;
          baseScaleVec = (if type = CANDY then Vector3 0.2 1.5 0.2
                          else if type = PHOTO then Vector3 1.0 1.0 1.0
                          else if type = STAR then Vector3 1.2 1.2 1.2
                          else Vector3 1 1 1);
          tScale = multiplyScalar baseScaleVec (scale * randScale);
          cScale = (if type = PHOTO then multiplyScalar tScale (2.5 + r_photoScale d * 1.0)
                    else tScale)
      in \<lparr>chaosPos = cPos, targetPos = tPos,
          rotation = Euler (r_rotx d * pi) (r_roty d * pi) 0,
          color = colorHex, targetScale = tScale, chaosScale = cScale, chaosTilt = tilt\<rparr>)"

definition Ornaments_data ::
  "OrnamentType \<Rightarrow> nat \<Rightarrow> string list option \<Rightarrow> real \<Rightarrow> (nat \<Rightarrow> real) \<Rightarrow> (nat \<Rightarrow> Draws)
     \<Rightarrow> OrnamentData list" where
  "Ornaments_data type count colors scale target rnd =
     map (\<lambda>i. Ornaments_item type colors scale target (rnd i) i) [0..<count]"

text \<open>The arguments of \<open>generateFoliageData(count, 18, 7)\<close>: the cone's height and base radius.\<close>

definition treeHeight :: real where "treeHeight = 18"
definition treeBaseRadius :: real where "treeBaseRadius = 7"

text \<open>\<open>photoCount\<close> of \<open>SceneContent\<close>; \<open>userImages\<close> is an optional property.\<close>

definition photoCount :: "string list option \<Rightarrow> nat" where
  "photoCount images =
     (case images of
        None \<Rightarrow> 10
      | Some imgs \<Rightarrow> if length imgs > 0 then length imgs else 10)"

section \<open>Ornaments: the instanced populations, frame by frame\<close>

record Ornaments_state =
  orn_currentMixRef :: real
  orn_meshRef :: "InstancedMesh option"

definition Ornaments_init :: Ornaments_state where
  "Ornaments_init = \<lparr>orn_currentMixRef = 1, orn_meshRef = None\<rparr>"

text \<open>The component once React has attached the instanced mesh to \<open>meshRef\<close>.\<close>

definition Ornaments_mounted :: Ornaments_state where
  "Ornaments_mounted = Ornaments_init\<lparr>orn_meshRef := Some Map.empty\<rparr>"

definition Ornaments_layout_instance :: "OrnamentData \<Rightarrow> Object3D" where
  "Ornaments_layout_instance item =
     \<lparr>obj_position = targetPos item, obj_orientation = FromEuler (rotation item),
      obj_scale = targetScale item\<rparr>"

definition Ornaments_useLayoutEffect ::
  "OrnamentType \<Rightarrow> OrnamentData list \<Rightarrow> Ornaments_state \<Rightarrow> Ornaments_state" where
  "Ornaments_useLayoutEffect type data s =
     (case orn_meshRef s of
        None \<Rightarrow> s
      | Some mesh \<Rightarrow>
          if type = PHOTO then s
          else s\<lparr>orn_meshRef :=
                   Some (fold (\<lambda>(i, item). setMatrixAt i (Ornaments_layout_instance item))
                           (enumerate 0 data) mesh)\<rparr>)"

text \<open>What one pass of the \<open>forEach\<close> body leaves in the dummy object for \<open>item\<close>.\<close>

definition Ornaments_instance :: "OrnamentType \<Rightarrow> real \<Rightarrow> OrnamentData \<Rightarrow> Object3D" where
  "Ornaments_instance type t item =
     (let currentPos = lerpVectors (chaosPos item) (targetPos item) t;
          rot = (if type = STAR \<and> t > 0.8
                 then RotateX (LookAt currentPos (Vector3 0 (vec_y currentPos) 0)) (pi / 2)
                 else FromEuler (rotation item));
          currentScale = lerpVectors (chaosScale item) (targetScale item) t
      in \<lparr>obj_position = currentPos, obj_orientation = rot, obj_scale = currentScale\<rparr>)"

definition Ornaments_useFrame ::
  "OrnamentType \<Rightarrow> OrnamentData list \<Rightarrow> real \<Rightarrow> real \<Rightarrow> Ornaments_state \<Rightarrow> Ornaments_state" where
  "Ornaments_useFrame type data mixFactor delta s =
     (case orn_meshRef s of
        None \<Rightarrow> s
      | Some mesh \<Rightarrow>
          if type = PHOTO then s
          else
            let speed = 2.0 * delta;
                t = lerp (orn_currentMixRef s) mixFactor speed
            in \<lparr>orn_currentMixRef = t,
                orn_meshRef =
                  Some (fold (\<lambda>(i, item). setMatrixAt i (Ornaments_instance type t item))
                          (enumerate 0 data) mesh)\<rparr>)"

text \<open>The transform an instance was last drawn with.\<close>

definition Ornaments_rendered :: "Ornaments_state \<Rightarrow> nat \<Rightarrow> Object3D option" where
  "Ornaments_rendered s i = (case orn_meshRef s of None \<Rightarrow> None | Some mesh \<Rightarrow> mesh i)"

text \<open>A run of frames, each with the mix target and the frame delta it is given.\<close>

definition Ornaments_run ::
  "OrnamentType \<Rightarrow> OrnamentData list \<Rightarrow> (real \<times> real) list \<Rightarrow> Ornaments_state \<Rightarrow> Ornaments_state" where
  "Ornaments_run type data ticks s =
     fold (\<lambda>(mixFactor, delta). Ornaments_useFrame type data mixFactor delta) ticks s"

section \<open>PhotoFrameMesh: one photo object, frame by frame\<close>

record Photo_state =
  photo_currentMixRef :: real
  photo_groupRef :: "Object3D option"
  photo_innerRef :: "real option"

definition PhotoFrameMesh_init :: Photo_state where
  "PhotoFrameMesh_init = \<lparr>photo_currentMixRef = 1, photo_groupRef = None, photo_innerRef = None\<rparr>"

text \<open>
  The component once both groups are attached: a fresh group at the origin with unit
  scale, and an inner group whose \<open>rotation.z\<close> is 0.
\<close>

definition PhotoFrameMesh_mounted :: Photo_state where
  "PhotoFrameMesh_mounted =
     PhotoFrameMesh_init
       \<lparr>photo_groupRef := Some \<lparr>obj_position = Vector3 0 0 0, obj_orientation = Unrotated,
                                obj_scale = Vector3 1 1 1\<rparr>,
        photo_innerRef := Some 0\<rparr>"

text \<open>\<open>cameraPos\<close> is \<open>state.camera.position\<close> of the frame.\<close>

definition PhotoFrameMesh_useFrame ::
  "OrnamentData \<Rightarrow> real \<Rightarrow> Vector3 \<Rightarrow> real \<Rightarrow> Photo_state \<Rightarrow> Photo_state" where
  "PhotoFrameMesh_useFrame item mixFactor cameraPos delta s =
     (case photo_groupRef s of
        None \<Rightarrow> s
      | Some g \<Rightarrow>
          (case photo_innerRef s of
             None \<Rightarrow> s
           | Some rz \<Rightarrow>
               let speed = 2.0 * delta;
                   t = lerp (photo_currentMixRef s) mixFactor speed;
                   vecPos = lerpVectors (chaosPos item) (targetPos item) t;
                   vecScale = lerpVectors (chaosScale item) (targetScale item) t
               in if t > 0.8
                  then \<lparr>photo_currentMixRef = t,
                        photo_groupRef =
                          Some \<lparr>obj_position = vecPos,
                                obj_orientation =
                                  RotateY (LookAt vecPos (Vector3 0 (vec_y vecPos) 0)) pi,
                                obj_scale = vecScale\<rparr>,
                        photo_innerRef = Some (lerp rz 0 speed)\<rparr>
                  else \<lparr>photo_currentMixRef = t,
                        photo_groupRef =
                          Some \<lparr>obj_position = vecPos,
                                obj_orientation = LookAt vecPos cameraPos,
                                obj_scale = vecScale\<rparr>,
                        photo_innerRef = Some (lerp rz (chaosTilt item) speed)\<rparr>))"

definition PhotoFrameMesh_run ::
  "OrnamentData \<Rightarrow> (real \<times> Vector3 \<times> real) list \<Rightarrow> Photo_state \<Rightarrow> Photo_state" where
  "PhotoFrameMesh_run item ticks s =
     fold (\<lambda>(mixFactor, cameraPos, delta). PhotoFrameMesh_useFrame item mixFactor cameraPos delta)
       ticks s"

section \<open>SpiralLights: the light strip, frame by frame\<close>

definition SpiralLights_count :: nat where
  "SpiralLights_count = 420"

record Spiral_state =
  spiral_currentMixRef :: real
  spiral_meshRef :: "InstancedMesh option"

definition SpiralLights_init :: Spiral_state where
  "SpiralLights_init = \<lparr>spiral_currentMixRef = 1, spiral_meshRef = None\<rparr>"

definition SpiralLights_mounted :: Spiral_state where
  "SpiralLights_mounted = SpiralLights_init\<lparr>spiral_meshRef := Some Map.empty\<rparr>"

text \<open>
  \<open>target\<close> and \<open>chaos\<close> are the flat coordinate arrays that
  \<open>generateSpiralData(count, 19, 7.5, 9)\<close> returns (a helper of \<open>utils/math\<close>).
\<close>

definition SpiralLights_layout_instance :: "(nat \<Rightarrow> real) \<Rightarrow> nat \<Rightarrow> Object3D" where
  "SpiralLights_layout_instance target i =
     \<lparr>obj_position = Vector3 (target (i*3)) (target (i*3+1)) (target (i*3+2)),
      obj_orientation = Unrotated,
      obj_scale = Vector3 0.12 0.12 0.12\<rparr>"

definition SpiralLights_useLayoutEffect :: "(nat \<Rightarrow> real) \<Rightarrow> Spiral_state \<Rightarrow> Spiral_state" where
  "SpiralLights_useLayoutEffect target s =
     (case spiral_meshRef s of
        None \<Rightarrow> s
      | Some mesh \<Rightarrow>
          s\<lparr>spiral_meshRef :=
              Some (fold (\<lambda>i. setMatrixAt i (SpiralLights_layout_instance target i))
                      [0..<SpiralLights_count] mesh)\<rparr>)"

definition SpiralLights_instance ::
  "(nat \<Rightarrow> real) \<Rightarrow> (nat \<Rightarrow> real) \<Rightarrow> real \<Rightarrow> real \<Rightarrow> nat \<Rightarrow> Object3D" where
  "SpiralLights_instance target chaos time t i =
     (let tx = target (i*3); ty = target (i*3+1); tz = target (i*3+2);
          cx = chaos (i*3); cy = chaos (i*3+1); cz = chaos (i*3+2);
          x = lerp cx tx t;
          y = lerp cy ty t;
          z = lerp cz tz t;
          pulse = sin (time * 3 + real i * 0.1) * 0.05 + 0.15
      in \<lparr>obj_position = Vector3 x y z, obj_orientation = Unrotated,
          obj_scale = Vector3 pulse pulse pulse\<rparr>)"

text \<open>\<open>time\<close> is \<open>state.clock.elapsedTime\<close> of the frame.\<close>

definition SpiralLights_useFrame ::
  "(nat \<Rightarrow> real) \<Rightarrow> (nat \<Rightarrow> real) \<Rightarrow> real \<Rightarrow> real \<Rightarrow> real \<Rightarrow> Spiral_state \<Rightarrow> Spiral_state" where
  "SpiralLights_useFrame target chaos mixFactor time delta s =
     (case spiral_meshRef s of
        None \<Rightarrow> s
      | Some mesh \<Rightarrow>
          let speed = 2.0 * delta;
              t = lerp (spiral_currentMixRef s) mixFactor speed
          in \<lparr>spiral_currentMixRef = t,
              spiral_meshRef =
                Some (fold (\<lambda>i. setMatrixAt i (SpiralLights_instance target chaos time t i))
                        [0..<SpiralLights_count] mesh)\<rparr>)"

definition SpiralLights_rendered :: "Spiral_state \<Rightarrow> nat \<Rightarrow> Object3D option" where
  "SpiralLights_rendered s i = (case spiral_meshRef s of None \<Rightarrow> None | Some mesh \<Rightarrow> mesh i)"

definition SpiralLights_run ::
  "(nat \<Rightarrow> real) \<Rightarrow> (nat \<Rightarrow> real) \<Rightarrow> (real \<times> real \<times> real) list \<Rightarrow> Spiral_state \<Rightarrow> Spiral_state" where
  "SpiralLights_run target chaos ticks s =
     fold (\<lambda>(mixFactor, time, delta). SpiralLights_useFrame target chaos mixFactor time delta)
       ticks s"

section \<open>SceneController: camera parallax and rotation momentum\<close>

record Scene_state =
  currentInput :: Point2
  velocity :: real
  lastX :: real
  camera_position :: Vector3
  group_rotation_y :: "real option"

text \<open>
  The refs as \<open>useRef\<close> creates them, the camera where the canvas puts it, and the
  rotating group attached with no rotation.
\<close>

definition SceneController_init :: Scene_state where
  "SceneController_init =
     \<lparr>currentInput = \<lparr>px = 0, py = 0\<rparr>, velocity = 0, lastX = 0,
      camera_position = Vector3 0 0 32, group_rotation_y = Some 0\<rparr>"

text \<open>\<open>input\<close> is \<open>inputRef.current\<close> at the time of the frame.\<close>

definition SceneController_useFrame :: "Point2 \<Rightarrow> real \<Rightarrow> Scene_state \<Rightarrow> Scene_state" where
  "SceneController_useFrame input delta s =
     (let safeDelta = min delta 0.1;
          targetX = px input;
          targetY = py input;
          inputSmoothing = 3.0 * safeDelta;
          cx = MathUtils_lerp (px (currentInput s)) targetX inputSmoothing;
          cy = MathUtils_lerp (py (currentInput s)) targetY inputSmoothing;
          camX = cx * 4;
          camY = cy * 2;
          camZ = 32 + \<bar>cx\<bar> * 2;
          cam = Vector3_lerp (camera_position s) (Vector3 camX camY camZ) (2.0 * safeDelta);
          s1 = s\<lparr>currentInput := \<lparr>px = cx, py = cy\<rparr>, camera_position := cam\<rparr>
      in case group_rotation_y s of
           None \<Rightarrow> s1
         | Some ry \<Rightarrow>
             let deltaX = cx - lastX s;
                 v1 = velocity s + deltaX * 0.5;
                 v2 = v1 * 0.95
             in s1\<lparr>lastX := cx, velocity := v2, group_rotation_y := Some (ry + (0.002 + v2))\<rparr>)"

text \<open>A run of frames during which the pointer input is held at \<open>input\<close>.\<close>

definition SceneController_run :: "Point2 \<Rightarrow> real list \<Rightarrow> Scene_state \<Rightarrow> Scene_state" where
  "SceneController_run input deltas s = fold (SceneController_useFrame input) deltas s"

section \<open>Notions used to state the properties\<close>

text \<open>\<open>p\<close> lies on the straight segment from \<open>a\<close> to \<open>b\<close>.\<close>

definition on_segment :: "Vector3 \<Rightarrow> Vector3 \<Rightarrow> Vector3 \<Rightarrow> bool" where
  "on_segment a b p =
     (\<exists>u. 0 \<le> u \<and> u \<le> 1 \<and>
          p = Vector3 ((1 - u) * vec_x a + u * vec_x b)
                      ((1 - u) * vec_y a + u * vec_y b)
                      ((1 - u) * vec_z a + u * vec_z b))"

text \<open>
  \<open>p\<close> is a blend of \<open>chaos\<close> and \<open>target\<close> by \<open>t\<close>: on the segment between them, at
  \<open>chaos\<close> for \<open>t = 0\<close> and at \<open>target\<close> for \<open>t = 1\<close>.
\<close>

definition blend_position :: "Vector3 \<Rightarrow> Vector3 \<Rightarrow> real \<Rightarrow> Vector3 \<Rightarrow> bool" where
  "blend_position chaos target t p =
     (on_segment chaos target p \<and> (t = 0 \<longrightarrow> p = chaos) \<and> (t = 1 \<longrightarrow> p = target))"

text \<open>The point of index \<open>i\<close> in a flat coordinate array.\<close>

definition pointAt :: "(nat \<Rightarrow> real) \<Rightarrow> nat \<Rightarrow> Vector3" where
  "pointAt arr i = Vector3 (arr (i*3)) (arr (i*3+1)) (arr (i*3+2))"

text \<open>The distance of a point from the vertical axis through the origin.\<close>

definition horizontalRadius :: "Vector3 \<Rightarrow> real" where
  "horizontalRadius v = sqrt ((vec_x v)\<^sup>2 + (vec_z v)\<^sup>2)"

text \<open>Sample data for evaluating the frame callbacks.\<close>

definition sampleItem :: OrnamentData where
  "sampleItem =
     \<lparr>chaosPos = Vector3 10 (-5) 20, targetPos = Vector3 1 2 3, rotation = Euler 1 2 0,
      color = None, targetScale = Vector3 1 1 1, chaosScale = Vector3 3 3 3, chaosTilt = 1/10\<rparr>"

definition sampleArray :: "nat \<Rightarrow> real" where
  "sampleArray k = real k"

definition zeroArray :: "nat \<Rightarrow> real" where
  "zeroArray k = 0"

definition sampleDraws :: "nat \<Rightarrow> Draws" where
  "sampleDraws i =
     \<lparr>r_theta = 0, r_radius = 1/2, r_height = 1/4, r_tilt = 1/2, r_sphere = Vector3 0 0 0,
      r_color = 0, r_scale = 1/2, r_photoScale = 1/2, r_rotx = 0, r_roty = 0\<rparr>"

text \<open>A scene whose smoothed pointer has come to rest at 0.6 while the tree still spins.\<close>

definition sampleScene :: Scene_state where
  "sampleScene =
     \<lparr>currentInput = \<lparr>px = 3/5, py = 0\<rparr>, velocity = 1/10, lastX = 3/5,
      camera_position = Vector3 0 0 32, group_rotation_y = Some 0\<rparr>"

section \<open>Auxiliary facts about the frame callbacks\<close>

lemma fold_setMatrixAt_enumerate:
  "fold (\<lambda>(i, item). setMatrixAt i (f item)) (enumerate n xs) mesh k =
     (if n \<le> k \<and> k < n + length xs then Some (f (xs ! (k - n))) else mesh k)"
proof (induction xs arbitrary: n mesh)
  case Nil
  then show ?case by auto
next
  case (Cons a xs)
  have "fold (\<lambda>(i, item). setMatrixAt i (f item)) (enumerate n (a # xs)) mesh k =
          (if Suc n \<le> k \<and> k < Suc n + length xs then Some (f (xs ! (k - Suc n)))
           else setMatrixAt n (f a) mesh k)"
    by (simp add: Cons.IH)
  also have "\<dots> = (if n \<le> k \<and> k < n + length (a # xs) then Some (f ((a # xs) ! (k - n)))
                    else mesh k)"
    by (auto simp add: setMatrixAt_def nth_Cons' Suc_le_eq)
  finally show ?case .
qed

lemma fold_setMatrixAt_upt:
  "fold (\<lambda>i. setMatrixAt i (f i)) [0..<n] mesh k = (if k < n then Some (f k) else mesh k)"
  by (induction n) (auto simp add: setMatrixAt_def)

lemma lerp_convex:
  assumes "0 \<le> a" "a \<le> 1" "0 \<le> b" "b \<le> 1" "0 \<le> t"
  shows "0 \<le> lerp a b t \<and> lerp a b t \<le> 1"
proof -
  define m where "m = min t 1"
  have m: "0 \<le> m" "m \<le> 1" using assms by (simp_all add: m_def)
  have eq: "lerp a b t = (1 - m) * a + m * b"
    by (simp add: lerp_def m_def algebra_simps)
  have "0 \<le> (1 - m) * a" "0 \<le> m * b" using m assms by simp_all
  then have lo: "0 \<le> (1 - m) * a + m * b" by linarith
  have "(1 - m) * a \<le> (1 - m) * 1" using m assms by (intro mult_left_mono) simp_all
  moreover have "m * b \<le> m * 1" using m assms by (intro mult_left_mono) simp_all
  ultimately have "(1 - m) * a + m * b \<le> 1" by simp
  with lo eq show ?thesis by simp
qed

lemma Ornaments_useFrame_mix:
  "orn_currentMixRef (Ornaments_useFrame type data mixFactor delta s) =
     (if orn_meshRef s = None \<or> type = PHOTO then orn_currentMixRef s
      else lerp (orn_currentMixRef s) mixFactor (2 * delta))"
  by (simp add: Ornaments_useFrame_def Let_def split: option.splits)

lemma Ornaments_useFrame_rendered:
  assumes "orn_meshRef s \<noteq> None" "type \<noteq> PHOTO" "i < length data"
  shows "Ornaments_rendered (Ornaments_useFrame type data mixFactor delta s) i =
           Some (Ornaments_instance type (lerp (orn_currentMixRef s) mixFactor (2 * delta)) (data ! i))"
  using assms
  by (auto simp add: Ornaments_useFrame_def Ornaments_rendered_def Let_def
        fold_setMatrixAt_enumerate split: option.splits)

lemma SpiralLights_useFrame_mix:
  "spiral_currentMixRef (SpiralLights_useFrame target chaos mixFactor time delta s) =
     (if spiral_meshRef s = None then spiral_currentMixRef s
      else lerp (spiral_currentMixRef s) mixFactor (2 * delta))"
  by (simp add: SpiralLights_useFrame_def Let_def split: option.splits)

lemma SpiralLights_useFrame_rendered:
  assumes "spiral_meshRef s \<noteq> None" "i < SpiralLights_count"
  shows "SpiralLights_rendered (SpiralLights_useFrame target chaos mixFactor time delta s) i =
           Some (SpiralLights_instance target chaos time
                   (lerp (spiral_currentMixRef s) mixFactor (2 * delta)) i)"
  using assms
  by (auto simp add: SpiralLights_useFrame_def SpiralLights_rendered_def Let_def
        fold_setMatrixAt_upt split: option.splits)

lemma PhotoFrameMesh_useFrame_mix:
  "photo_currentMixRef (PhotoFrameMesh_useFrame item mixFactor cameraPos delta s) =
     (if photo_groupRef s = None \<or> photo_innerRef s = None then photo_currentMixRef s
      else lerp (photo_currentMixRef s) mixFactor (2 * delta))"
  by (simp add: PhotoFrameMesh_useFrame_def Let_def split: option.splits)

lemma PhotoFrameMesh_useFrame_position:
  assumes "photo_groupRef s \<noteq> None" "photo_innerRef s \<noteq> None"
  shows "map_option obj_position
           (photo_groupRef (PhotoFrameMesh_useFrame item mixFactor cameraPos delta s)) =
           Some (lerpVectors (chaosPos item) (targetPos item)
                   (lerp (photo_currentMixRef s) mixFactor (2 * delta)))"
  using assms
  by (auto simp add: PhotoFrameMesh_useFrame_def Let_def split: option.splits)

lemma PhotoFrameMesh_useFrame_scale:
  assumes "photo_groupRef s \<noteq> None" "photo_innerRef s \<noteq> None"
  shows "map_option obj_scale
           (photo_groupRef (PhotoFrameMesh_useFrame item mixFactor cameraPos delta s)) =
           Some (lerpVectors (chaosScale item) (targetScale item)
                   (lerp (photo_currentMixRef s) mixFactor (2 * delta)))"
  using assms
  by (auto simp add: PhotoFrameMesh_useFrame_def Let_def split: option.splits)

section \<open>Gesture samples\<close>

text \<open>
  C7. A detected gesture sample sets the mix target to 0 for an open hand and to 1 for a
  closed one, and sets the pointer input to \<open>(position.x * 1.2, position.y)\<close>; a sample
  without detection leaves the pointer input (and the mix target) as they were.
\<close>

theorem handleGesture_sample:
  "(isDetected data \<longrightarrow>
      targetMix (handleGesture data s) = (if isOpen data then 0 else 1) \<and>
      inputRef (handleGesture data s) = \<lparr>px = px (position data) * 1.2, py = py (position data)\<rparr>) \<and>
   (\<not> isDetected data \<longrightarrow>
      inputRef (handleGesture data s) = inputRef s \<and>
      targetMix (handleGesture data s) = targetMix s)"
  by (simp add: handleGesture_def Let_def)

theorem handleGesture_sample_witness:
  "targetMix (handleGesture \<lparr>isDetected = True, isOpen = True, position = \<lparr>px = 1/2, py = 1/4\<rparr>\<rparr> App_init) = 0
   \<and> inputRef (handleGesture \<lparr>isDetected = True, isOpen = True, position = \<lparr>px = 1/2, py = 1/4\<rparr>\<rparr> App_init)
       = \<lparr>px = 3/5, py = 1/4\<rparr>
   \<and> inputRef (handleGesture \<lparr>isDetected = False, isOpen = True, position = \<lparr>px = 1/2, py = 1/4\<rparr>\<rparr>
         (App_init\<lparr>inputRef := \<lparr>px = 3/5, py = 1/4\<rparr>\<rparr>)) = \<lparr>px = 3/5, py = 1/4\<rparr>"
  using handleGesture_sample
          [of "\<lparr>isDetected = True, isOpen = True, position = \<lparr>px = 1/2, py = 1/4\<rparr>\<rparr>" App_init]
        handleGesture_sample
          [of "\<lparr>isDetected = False, isOpen = True, position = \<lparr>px = 1/2, py = 1/4\<rparr>\<rparr>"
              "App_init\<lparr>inputRef := \<lparr>px = 3/5, py = 1/4\<rparr>\<rparr>"]
  by (simp add: App_init_def)

section \<open>The smoothed blend stays between chaos and formed\<close>

lemma Ornaments_useFrame_unit:
  assumes "0 \<le> orn_currentMixRef s" "orn_currentMixRef s \<le> 1" "0 \<le> m" "m \<le> 1" "0 < d"
  shows "0 \<le> orn_currentMixRef (Ornaments_useFrame type data m d s) \<and>
         orn_currentMixRef (Ornaments_useFrame type data m d s) \<le> 1"
  using assms lerp_convex [of "orn_currentMixRef s" m "2 * d"]
  by (simp add: Ornaments_useFrame_mix)

lemma Ornaments_run_unit:
  assumes "0 \<le> orn_currentMixRef s" "orn_currentMixRef s \<le> 1"
      and "\<forall>(m, d) \<in> set ticks. 0 \<le> m \<and> m \<le> 1 \<and> 0 < d"
  shows "0 \<le> orn_currentMixRef (Ornaments_run type data ticks s) \<and>
         orn_currentMixRef (Ornaments_run type data ticks s) \<le> 1"
  using assms
proof (induction ticks arbitrary: s)
  case Nil
  then show ?case by (simp add: Ornaments_run_def)
next
  case (Cons tick ticks)
  obtain m d where tick: "tick = (m, d)" by (cases tick)
  from Cons.prems tick have md: "0 \<le> m" "m \<le> 1" "0 < d" by simp_all
  have step: "0 \<le> orn_currentMixRef (Ornaments_useFrame type data m d s) \<and>
              orn_currentMixRef (Ornaments_useFrame type data m d s) \<le> 1"
    using Cons.prems(1,2) md by (rule Ornaments_useFrame_unit)
  have rest: "\<forall>(m, d) \<in> set ticks. 0 \<le> m \<and> m \<le> 1 \<and> 0 < d"
    using Cons.prems(3) by simp
  have "Ornaments_run type data (tick # ticks) s =
          Ornaments_run type data ticks (Ornaments_useFrame type data m d s)"
    by (simp add: Ornaments_run_def tick)
  with Cons.IH [of "Ornaments_useFrame type data m d s"] step rest show ?case by simp
qed

lemma SpiralLights_useFrame_unit:
  assumes "0 \<le> spiral_currentMixRef s" "spiral_currentMixRef s \<le> 1" "0 \<le> m" "m \<le> 1" "0 < d"
  shows "0 \<le> spiral_currentMixRef (SpiralLights_useFrame target chaos m time d s) \<and>
         spiral_currentMixRef (SpiralLights_useFrame target chaos m time d s) \<le> 1"
  using assms lerp_convex [of "spiral_currentMixRef s" m "2 * d"]
  by (simp add: SpiralLights_useFrame_mix)

lemma SpiralLights_run_unit:
  assumes "0 \<le> spiral_currentMixRef s" "spiral_currentMixRef s \<le> 1"
      and "\<forall>(m, time, d) \<in> set ticks. 0 \<le> m \<and> m \<le> 1 \<and> 0 < d"
  shows "0 \<le> spiral_currentMixRef (SpiralLights_run target chaos ticks s) \<and>
         spiral_currentMixRef (SpiralLights_run target chaos ticks s) \<le> 1"
  using assms
proof (induction ticks arbitrary: s)
  case Nil
  then show ?case by (simp add: SpiralLights_run_def)
next
  case (Cons tick ticks)
  obtain m time d where tick: "tick = (m, time, d)" by (cases tick)
  from Cons.prems tick have md: "0 \<le> m" "m \<le> 1" "0 < d" by simp_all
  have step: "0 \<le> spiral_currentMixRef (SpiralLights_useFrame target chaos m time d s) \<and>
              spiral_currentMixRef (SpiralLights_useFrame target chaos m time d s) \<le> 1"
    using Cons.prems(1,2) md by (rule SpiralLights_useFrame_unit)
  have rest: "\<forall>(m, time, d) \<in> set ticks. 0 \<le> m \<and> m \<le> 1 \<and> 0 < d"
    using Cons.prems(3) by simp
  have "SpiralLights_run target chaos (tick # ticks) s =
          SpiralLights_run target chaos ticks (SpiralLights_useFrame target chaos m time d s)"
    by (simp add: SpiralLights_run_def tick)
  with Cons.IH [of "SpiralLights_useFrame target chaos m time d s"] step rest show ?case by simp
qed

lemma PhotoFrameMesh_useFrame_unit:
  assumes "0 \<le> photo_currentMixRef s" "photo_currentMixRef s \<le> 1" "0 \<le> m" "m \<le> 1" "0 < d"
  shows "0 \<le> photo_currentMixRef (PhotoFrameMesh_useFrame item m cam d s) \<and>
         photo_currentMixRef (PhotoFrameMesh_useFrame item m cam d s) \<le> 1"
  using assms lerp_convex [of "photo_currentMixRef s" m "2 * d"]
  by (simp add: PhotoFrameMesh_useFrame_mix)

lemma PhotoFrameMesh_run_unit:
  assumes "0 \<le> photo_currentMixRef s" "photo_currentMixRef s \<le> 1"
      and "\<forall>(m, cam, d) \<in> set ticks. 0 \<le> m \<and> m \<le> 1 \<and> 0 < d"
  shows "0 \<le> photo_currentMixRef (PhotoFrameMesh_run item ticks s) \<and>
         photo_currentMixRef (PhotoFrameMesh_run item ticks s) \<le> 1"
  using assms
proof (induction ticks arbitrary: s)
  case Nil
  then show ?case by (simp add: PhotoFrameMesh_run_def)
next
  case (Cons tick ticks)
  obtain m cam d where tick: "tick = (m, cam, d)" by (cases tick)
  from Cons.prems tick have md: "0 \<le> m" "m \<le> 1" "0 < d" by simp_all
  have step: "0 \<le> photo_currentMixRef (PhotoFrameMesh_useFrame item m cam d s) \<and>
              photo_currentMixRef (PhotoFrameMesh_useFrame item m cam d s) \<le> 1"
    using Cons.prems(1,2) md by (rule PhotoFrameMesh_useFrame_unit)
  have rest: "\<forall>(m, cam, d) \<in> set ticks. 0 \<le> m \<and> m \<le> 1 \<and> 0 < d"
    using Cons.prems(3) by simp
  have "PhotoFrameMesh_run item (tick # ticks) s =
          PhotoFrameMesh_run item ticks (PhotoFrameMesh_useFrame item m cam d s)"
    by (simp add: PhotoFrameMesh_run_def tick)
  with Cons.IH [of "PhotoFrameMesh_useFrame item m cam d s"] step rest show ?case by simp
qed

text \<open>
  C3. The smoothed blend of each population (the instanced ornaments, the light strip, each
  photo object) stays in \<open>[0, 1]\<close> after every frame, for every sequence of mix targets
  in \<open>[0, 1]\<close> and every sequence of positive frame deltas, however large. The runs may
  start from any blend in \<open>[0, 1]\<close>, in particular from the initial 1.
\<close>

theorem currentBlend_stays_in_unit_interval:
  assumes "0 \<le> orn_currentMixRef so \<and> orn_currentMixRef so \<le> 1"
      and "0 \<le> spiral_currentMixRef ss \<and> spiral_currentMixRef ss \<le> 1"
      and "0 \<le> photo_currentMixRef sp \<and> photo_currentMixRef sp \<le> 1"
      and "\<forall>(m, d) \<in> set ticks_o. 0 \<le> m \<and> m \<le> 1 \<and> 0 < d"
      and "\<forall>(m, time, d) \<in> set ticks_s. 0 \<le> m \<and> m \<le> 1 \<and> 0 < d"
      and "\<forall>(m, cam, d) \<in> set ticks_p. 0 \<le> m \<and> m \<le> 1 \<and> 0 < d"
  shows "(0 \<le> orn_currentMixRef (Ornaments_run type data ticks_o so) \<and>
          orn_currentMixRef (Ornaments_run type data ticks_o so) \<le> 1) \<and>
         (0 \<le> spiral_currentMixRef (SpiralLights_run target chaos ticks_s ss) \<and>
          spiral_currentMixRef (SpiralLights_run target chaos ticks_s ss) \<le> 1) \<and>
         (0 \<le> photo_currentMixRef (PhotoFrameMesh_run item ticks_p sp) \<and>
          photo_currentMixRef (PhotoFrameMesh_run item ticks_p sp) \<le> 1)"
  using assms Ornaments_run_unit [of so ticks_o type data]
    SpiralLights_run_unit [of ss ticks_s target chaos]
    PhotoFrameMesh_run_unit [of sp ticks_p item]
  by blast

theorem currentBlend_stays_in_unit_interval_witness:
  "orn_currentMixRef (Ornaments_run BALL [sampleItem] [(0, 5), (1, 1/60)] Ornaments_mounted) \<in> {0..1} \<and>
   spiral_currentMixRef
     (SpiralLights_run sampleArray zeroArray [(0, 0, 5), (1, 5, 1/60)] SpiralLights_mounted) \<in> {0..1} \<and>
   photo_currentMixRef
     (PhotoFrameMesh_run sampleItem [(0, Vector3 0 0 32, 5), (1, Vector3 0 0 32, 1/60)]
        PhotoFrameMesh_mounted) \<in> {0..1}"
  using currentBlend_stays_in_unit_interval
    [of Ornaments_mounted SpiralLights_mounted PhotoFrameMesh_mounted
        "[(0, 5), (1, 1/60)]" "[(0, 0, 5), (1, 5, 1/60)]"
        "[(0, Vector3 0 0 32, 5), (1, Vector3 0 0 32, 1/60)]"
        BALL "[sampleItem]" sampleArray zeroArray sampleItem]
  by (simp add: Ornaments_mounted_def Ornaments_init_def SpiralLights_mounted_def
        SpiralLights_init_def PhotoFrameMesh_mounted_def PhotoFrameMesh_init_def)

section \<open>Positions are blends of the chaos and target layouts\<close>

lemma lerpVectors_blend_position:
  assumes "0 \<le> t" "t \<le> 1"
  shows "blend_position a b t (lerpVectors a b t)"
proof -
  have "lerpVectors a b t =
          Vector3 ((1 - t) * vec_x a + t * vec_x b) ((1 - t) * vec_y a + t * vec_y b)
                  ((1 - t) * vec_z a + t * vec_z b)"
    by (simp add: lerpVectors_def algebra_simps)
  with assms have "on_segment a b (lerpVectors a b t)"
    unfolding on_segment_def by blast
  moreover have "lerpVectors a b 0 = a" "lerpVectors a b 1 = b"
    by (simp_all add: lerpVectors_def)
  ultimately show ?thesis by (auto simp add: blend_position_def)
qed

lemma SpiralLights_instance_position:
  assumes "0 \<le> t" "t \<le> 1"
  shows "obj_position (SpiralLights_instance target chaos time t k) =
           lerpVectors (pointAt chaos k) (pointAt target k) t"
  using assms by (simp add: SpiralLights_instance_def Let_def lerp_def lerpVectors_def pointAt_def)

text \<open>
  C2. In every population (the instanced ornaments, the light strip, the photo objects) and
  for every blend \<open>t\<close> in \<open>[0, 1]\<close>, the position an object is given in a frame lies on
  the segment between its chaos and its target position, is the chaos position for
  \<open>t = 0\<close> and the target position for \<open>t = 1\<close>.
\<close>

theorem rendered_position_on_segment:
  assumes "0 \<le> t" "t \<le> 1"
  shows "(orn_meshRef so \<noteq> None \<and> type \<noteq> PHOTO \<and> i < length data \<and>
          orn_currentMixRef (Ornaments_useFrame type data mixFactor delta so) = t \<longrightarrow>
            (\<exists>obj. Ornaments_rendered (Ornaments_useFrame type data mixFactor delta so) i = Some obj \<and>
                   blend_position (chaosPos (data ! i)) (targetPos (data ! i)) t (obj_position obj))) \<and>
         (spiral_meshRef ss \<noteq> None \<and> k < SpiralLights_count \<and>
          spiral_currentMixRef (SpiralLights_useFrame target chaos mixFactor time delta ss) = t \<longrightarrow>
            (\<exists>obj. SpiralLights_rendered (SpiralLights_useFrame target chaos mixFactor time delta ss) k
                      = Some obj \<and>
                   blend_position (pointAt chaos k) (pointAt target k) t (obj_position obj))) \<and>
         (photo_groupRef sp \<noteq> None \<and> photo_innerRef sp \<noteq> None \<and>
          photo_currentMixRef (PhotoFrameMesh_useFrame item mixFactor cam delta sp) = t \<longrightarrow>
            (\<exists>obj. photo_groupRef (PhotoFrameMesh_useFrame item mixFactor cam delta sp) = Some obj \<and>
                   blend_position (chaosPos item) (targetPos item) t (obj_position obj)))"
proof (intro conjI impI)
  assume a: "orn_meshRef so \<noteq> None \<and> type \<noteq> PHOTO \<and> i < length data \<and>
             orn_currentMixRef (Ornaments_useFrame type data mixFactor delta so) = t"
  then have t: "lerp (orn_currentMixRef so) mixFactor (2 * delta) = t"
    by (auto simp add: Ornaments_useFrame_mix)
  from a have "Ornaments_rendered (Ornaments_useFrame type data mixFactor delta so) i =
                 Some (Ornaments_instance type t (data ! i))"
    using Ornaments_useFrame_rendered [of so type i data mixFactor delta] t by simp
  moreover have "obj_position (Ornaments_instance type t (data ! i)) =
                   lerpVectors (chaosPos (data ! i)) (targetPos (data ! i)) t"
    by (simp add: Ornaments_instance_def Let_def)
  ultimately show "\<exists>obj. Ornaments_rendered (Ornaments_useFrame type data mixFactor delta so) i
                           = Some obj \<and>
                     blend_position (chaosPos (data ! i)) (targetPos (data ! i)) t (obj_position obj)"
    using lerpVectors_blend_position [OF assms] by simp
next
  assume a: "spiral_meshRef ss \<noteq> None \<and> k < SpiralLights_count \<and>
             spiral_currentMixRef (SpiralLights_useFrame target chaos mixFactor time delta ss) = t"
  then have t: "lerp (spiral_currentMixRef ss) mixFactor (2 * delta) = t"
    by (auto simp add: SpiralLights_useFrame_mix)
  from a have "SpiralLights_rendered (SpiralLights_useFrame target chaos mixFactor time delta ss) k =
                 Some (SpiralLights_instance target chaos time t k)"
    using SpiralLights_useFrame_rendered [of ss k target chaos mixFactor time delta] t by simp
  then show "\<exists>obj. SpiralLights_rendered (SpiralLights_useFrame target chaos mixFactor time delta ss) k
                      = Some obj \<and>
                blend_position (pointAt chaos k) (pointAt target k) t (obj_position obj)"
    using lerpVectors_blend_position [OF assms] SpiralLights_instance_position [OF assms]
    by simp
next
  assume a: "photo_groupRef sp \<noteq> None \<and> photo_innerRef sp \<noteq> None \<and>
             photo_currentMixRef (PhotoFrameMesh_useFrame item mixFactor cam delta sp) = t"
  then have t: "lerp (photo_currentMixRef sp) mixFactor (2 * delta) = t"
    by (auto simp add: PhotoFrameMesh_useFrame_mix)
  from a have "map_option obj_position
                 (photo_groupRef (PhotoFrameMesh_useFrame item mixFactor cam delta sp)) =
                 Some (lerpVectors (chaosPos item) (targetPos item) t)"
    using PhotoFrameMesh_useFrame_position [of sp item mixFactor cam delta] t by simp
  then obtain obj where
    "photo_groupRef (PhotoFrameMesh_useFrame item mixFactor cam delta sp) = Some obj"
    "obj_position obj = lerpVectors (chaosPos item) (targetPos item) t"
    by auto
  then show "\<exists>obj. photo_groupRef (PhotoFrameMesh_useFrame item mixFactor cam delta sp) = Some obj \<and>
                blend_position (chaosPos item) (targetPos item) t (obj_position obj)"
    using lerpVectors_blend_position [OF assms] by simp
qed

theorem rendered_position_on_segment_witness:
  "(\<exists>obj. Ornaments_rendered (Ornaments_useFrame BALL [sampleItem] 0 (1/2) Ornaments_mounted) 0
            = Some obj \<and>
          blend_position (chaosPos sampleItem) (targetPos sampleItem) 0 (obj_position obj)) \<and>
   (\<exists>obj. SpiralLights_rendered
            (SpiralLights_useFrame sampleArray zeroArray 0 0 (1/2) SpiralLights_mounted) 7 = Some obj \<and>
          blend_position (pointAt zeroArray 7) (pointAt sampleArray 7) 0 (obj_position obj)) \<and>
   (\<exists>obj. photo_groupRef
            (PhotoFrameMesh_useFrame sampleItem 0 (Vector3 0 0 32) (1/2) PhotoFrameMesh_mounted)
            = Some obj \<and>
          blend_position (chaosPos sampleItem) (targetPos sampleItem) 0 (obj_position obj))"
  using rendered_position_on_segment
    [of 0 Ornaments_mounted BALL 0 "[sampleItem]" 0 "1/2" SpiralLights_mounted 7
        sampleArray zeroArray 0 PhotoFrameMesh_mounted sampleItem "Vector3 0 0 32"]
  by (simp add: Ornaments_useFrame_mix SpiralLights_useFrame_mix PhotoFrameMesh_useFrame_mix
        Ornaments_mounted_def Ornaments_init_def SpiralLights_mounted_def SpiralLights_init_def
        PhotoFrameMesh_mounted_def PhotoFrameMesh_init_def SpiralLights_count_def lerp_def)

section \<open>Orientation of the stars\<close>

text \<open>
  C5. In every frame of a STAR population, an object whose population blend exceeds 0.8 is
  oriented by looking at the point of the vertical axis at its own current height and
  turning a quarter about its local X axis (the direction looked along is horizontal and
  radial); at a blend of 0.8 or less it keeps its static baseline rotation.
\<close>

theorem star_orientation:
  assumes "orn_meshRef s \<noteq> None" "i < length data"
  shows "\<exists>obj. Ornaments_rendered (Ornaments_useFrame STAR data mixFactor delta s) i = Some obj \<and>
           obj_orientation obj =
             (if orn_currentMixRef (Ornaments_useFrame STAR data mixFactor delta s) > 0.8
              then RotateX (LookAt (obj_position obj) (Vector3 0 (vec_y (obj_position obj)) 0)) (pi / 2)
              else FromEuler (rotation (data ! i))) \<and>
           lookDirection (obj_position obj) (Vector3 0 (vec_y (obj_position obj)) 0) =
             Vector3 (- vec_x (obj_position obj)) 0 (- vec_z (obj_position obj))"
proof -
  have "Ornaments_rendered (Ornaments_useFrame STAR data mixFactor delta s) i =
          Some (Ornaments_instance STAR (lerp (orn_currentMixRef s) mixFactor (2 * delta)) (data ! i))"
    using assms by (simp add: Ornaments_useFrame_rendered)
  moreover have "orn_currentMixRef (Ornaments_useFrame STAR data mixFactor delta s) =
                   lerp (orn_currentMixRef s) mixFactor (2 * delta)"
    using assms by (auto simp add: Ornaments_useFrame_mix)
  ultimately show ?thesis
    by (simp add: Ornaments_instance_def Let_def lookDirection_def)
qed

theorem star_orientation_witness:
  "(\<exists>obj. Ornaments_rendered (Ornaments_useFrame STAR [sampleItem] 1 (1/60) Ornaments_mounted) 0
            = Some obj \<and>
          obj_orientation obj = RotateX (LookAt (Vector3 1 2 3) (Vector3 0 2 0)) (pi / 2)) \<and>
   (\<exists>obj. Ornaments_rendered (Ornaments_useFrame STAR [sampleItem] 0 (1/10) Ornaments_mounted) 0
            = Some obj \<and>
          obj_orientation obj = FromEuler (Euler 1 2 0))"
proof -
  have m: "orn_meshRef Ornaments_mounted \<noteq> None" "(0::nat) < length [sampleItem]"
    by (simp_all add: Ornaments_mounted_def Ornaments_init_def)
  have b1: "orn_currentMixRef (Ornaments_useFrame STAR [sampleItem] 1 (1/60) Ornaments_mounted) = 1"
    by (simp add: Ornaments_useFrame_mix Ornaments_mounted_def Ornaments_init_def lerp_def)
  have b2: "orn_currentMixRef (Ornaments_useFrame STAR [sampleItem] 0 (1/10) Ornaments_mounted) = 4/5"
    by (simp add: Ornaments_useFrame_mix Ornaments_mounted_def Ornaments_init_def lerp_def)
  obtain o1 where o1:
    "Ornaments_rendered (Ornaments_useFrame STAR [sampleItem] 1 (1/60) Ornaments_mounted) 0 = Some o1"
    "obj_orientation o1 = RotateX (LookAt (obj_position o1) (Vector3 0 (vec_y (obj_position o1)) 0)) (pi / 2)"
    using star_orientation [OF m, of 1 "1/60"] b1 by auto
  have p1: "obj_position o1 = Vector3 1 2 3"
    using o1(1) Ornaments_useFrame_rendered [of Ornaments_mounted STAR 0 "[sampleItem]" 1 "1/60"] m
    by (simp add: Ornaments_instance_def Let_def lerpVectors_def sampleItem_def lerp_def
          Ornaments_mounted_def Ornaments_init_def)
  obtain o2 where o2:
    "Ornaments_rendered (Ornaments_useFrame STAR [sampleItem] 0 (1/10) Ornaments_mounted) 0 = Some o2"
    "obj_orientation o2 = FromEuler (rotation ([sampleItem] ! 0))"
    using star_orientation [OF m, of 0 "1/10"] b2 by auto
  show ?thesis using o1 o2 p1 by (simp add: sampleItem_def)
qed

section \<open>Scales\<close>

text \<open>
  C4, as the code has it. Once per frame, every object of an instanced ornament population
  and every photo object is given the scale \<open>lerp(chaosScale, targetScale, blend)\<close>, by
  component; a light of the spiral strip is given, whatever the blend, the uniform scale
  \<open>sin(3 * time + 0.1 * i) * 0.05 + 0.15\<close>.
\<close>

theorem rendered_scale:
  "(orn_meshRef so \<noteq> None \<and> type \<noteq> PHOTO \<and> i < length data \<longrightarrow>
      map_option obj_scale (Ornaments_rendered (Ornaments_useFrame type data mixFactor delta so) i) =
        Some (lerpVectors (chaosScale (data ! i)) (targetScale (data ! i))
                (orn_currentMixRef (Ornaments_useFrame type data mixFactor delta so)))) \<and>
   (photo_groupRef sp \<noteq> None \<and> photo_innerRef sp \<noteq> None \<longrightarrow>
      map_option obj_scale (photo_groupRef (PhotoFrameMesh_useFrame item mixFactor cam delta sp)) =
        Some (lerpVectors (chaosScale item) (targetScale item)
                (photo_currentMixRef (PhotoFrameMesh_useFrame item mixFactor cam delta sp)))) \<and>
   (spiral_meshRef ss \<noteq> None \<and> k < SpiralLights_count \<longrightarrow>
      map_option obj_scale
        (SpiralLights_rendered (SpiralLights_useFrame target chaos mixFactor time delta ss) k) =
        Some (Vector3 (sin (time * 3 + real k * 0.1) * 0.05 + 0.15)
                      (sin (time * 3 + real k * 0.1) * 0.05 + 0.15)
                      (sin (time * 3 + real k * 0.1) * 0.05 + 0.15)))"
proof (intro conjI impI)
  assume a: "orn_meshRef so \<noteq> None \<and> type \<noteq> PHOTO \<and> i < length data"
  then show "map_option obj_scale
               (Ornaments_rendered (Ornaments_useFrame type data mixFactor delta so) i) =
             Some (lerpVectors (chaosScale (data ! i)) (targetScale (data ! i))
                     (orn_currentMixRef (Ornaments_useFrame type data mixFactor delta so)))"
    by (auto simp add: Ornaments_useFrame_rendered Ornaments_useFrame_mix Ornaments_instance_def
          Let_def)
next
  assume a: "photo_groupRef sp \<noteq> None \<and> photo_innerRef sp \<noteq> None"
  then show "map_option obj_scale
               (photo_groupRef (PhotoFrameMesh_useFrame item mixFactor cam delta sp)) =
             Some (lerpVectors (chaosScale item) (targetScale item)
                     (photo_currentMixRef (PhotoFrameMesh_useFrame item mixFactor cam delta sp)))"
    using PhotoFrameMesh_useFrame_scale [of sp item mixFactor cam delta]
    by (auto simp add: PhotoFrameMesh_useFrame_mix)
next
  assume a: "spiral_meshRef ss \<noteq> None \<and> k < SpiralLights_count"
  then show "map_option obj_scale
               (SpiralLights_rendered (SpiralLights_useFrame target chaos mixFactor time delta ss) k) =
             Some (Vector3 (sin (time * 3 + real k * 0.1) * 0.05 + 0.15)
                           (sin (time * 3 + real k * 0.1) * 0.05 + 0.15)
                           (sin (time * 3 + real k * 0.1) * 0.05 + 0.15))"
    by (auto simp add: SpiralLights_useFrame_rendered SpiralLights_instance_def Let_def)
qed

theorem rendered_scale_witness:
  "map_option obj_scale
     (Ornaments_rendered (Ornaments_useFrame BALL [sampleItem] 0 (1/4) Ornaments_mounted) 0) =
     Some (Vector3 2 2 2) \<and>
   map_option obj_scale
     (photo_groupRef (PhotoFrameMesh_useFrame sampleItem 0 (Vector3 0 0 32) (1/4) PhotoFrameMesh_mounted)) =
     Some (Vector3 2 2 2) \<and>
   map_option obj_scale
     (SpiralLights_rendered (SpiralLights_useFrame sampleArray zeroArray 0 0 (1/4) SpiralLights_mounted) 0) =
     Some (Vector3 (3/20) (3/20) (3/20))"
  using rendered_scale
    [of Ornaments_mounted BALL 0 "[sampleItem]" 0 "1/4" PhotoFrameMesh_mounted sampleItem
        "Vector3 0 0 32" SpiralLights_mounted 0 sampleArray zeroArray 0]
  by (simp add: Ornaments_useFrame_mix PhotoFrameMesh_useFrame_mix
        Ornaments_mounted_def Ornaments_init_def SpiralLights_mounted_def SpiralLights_init_def
        PhotoFrameMesh_mounted_def PhotoFrameMesh_init_def SpiralLights_count_def lerp_def
        lerpVectors_def sampleItem_def)

text \<open>
  The claim as written fails on the light strip: no pair of fixed scales blended by the
  strip's blend gives the scale of light 0 in every frame, since at the same blend 1 it
  is drawn with 0.15 at time 0 and with 0.2 at time \<open>pi / 6\<close>.
\<close>

theorem spiral_scale_counterexample:
  "\<not> (\<exists>cs ts. \<forall>time.
        map_option obj_scale
          (SpiralLights_rendered
             (SpiralLights_useFrame sampleArray zeroArray 1 time (1/60) SpiralLights_mounted) 0) =
        Some (lerpVectors cs ts
                (spiral_currentMixRef
                   (SpiralLights_useFrame sampleArray zeroArray 1 time (1/60) SpiralLights_mounted))))"
proof
  assume "\<exists>cs ts. \<forall>time.
        map_option obj_scale
          (SpiralLights_rendered
             (SpiralLights_useFrame sampleArray zeroArray 1 time (1/60) SpiralLights_mounted) 0) =
        Some (lerpVectors cs ts
                (spiral_currentMixRef
                   (SpiralLights_useFrame sampleArray zeroArray 1 time (1/60) SpiralLights_mounted)))"
  then obtain cs ts where h: "\<And>time.
        map_option obj_scale
          (SpiralLights_rendered
             (SpiralLights_useFrame sampleArray zeroArray 1 time (1/60) SpiralLights_mounted) 0) =
        Some (lerpVectors cs ts
                (spiral_currentMixRef
                   (SpiralLights_useFrame sampleArray zeroArray 1 time (1/60) SpiralLights_mounted)))"
    by blast
  have m: "spiral_meshRef SpiralLights_mounted \<noteq> None" "0 < SpiralLights_count"
    by (simp_all add: SpiralLights_mounted_def SpiralLights_init_def SpiralLights_count_def)
  have blend: "\<And>time. spiral_currentMixRef
        (SpiralLights_useFrame sampleArray zeroArray 1 time (1/60) SpiralLights_mounted) = 1"
    by (simp add: SpiralLights_useFrame_mix SpiralLights_mounted_def SpiralLights_init_def lerp_def)
  have sc: "\<And>time. map_option obj_scale
          (SpiralLights_rendered
             (SpiralLights_useFrame sampleArray zeroArray 1 time (1/60) SpiralLights_mounted) 0) =
          Some (Vector3 (sin (time * 3) * 0.05 + 0.15) (sin (time * 3) * 0.05 + 0.15)
                        (sin (time * 3) * 0.05 + 0.15))"
    using m by (simp add: SpiralLights_useFrame_rendered SpiralLights_instance_def Let_def)
  have "Some (lerpVectors cs ts 1) = Some (Vector3 (3/20) (3/20) (3/20))"
    using h [of 0] by (simp only: sc blend) simp
  moreover have "Some (lerpVectors cs ts 1) = Some (Vector3 (1/5) (1/5) (1/5))"
    using h [of "pi / 6"] by (simp only: sc blend) simp
  ultimately show False by simp
qed

section \<open>The frame delta in the smoothing steps\<close>

lemma SceneController_useFrame_clamps_delta:
  assumes "0.1 < delta"
  shows "SceneController_useFrame input delta s = SceneController_useFrame input 0.1 s"
  using assms by (simp add: SceneController_useFrame_def min_def)

text \<open>
  C1. The pointer and camera smoothing of \<open>SceneController\<close> clamp the frame delta to
  0.1 s (the lemma above), but the blend smoothing of the ornaments, of the light strip
  and of the photo objects multiplies the raw delta: from blend 1 with mix target 0, a
  frame of 0.5 s takes the blend to 0 while a frame of 0.1 s takes it to 0.8.
\<close>

theorem blend_smoothing_uses_raw_delta:
  "orn_currentMixRef (Ornaments_useFrame BALL [sampleItem] 0 (1/2) Ornaments_mounted) = 0 \<and>
   orn_currentMixRef (Ornaments_useFrame BALL [sampleItem] 0 (1/10) Ornaments_mounted) = 4/5 \<and>
   spiral_currentMixRef
     (SpiralLights_useFrame sampleArray zeroArray 0 0 (1/2) SpiralLights_mounted) = 0 \<and>
   spiral_currentMixRef
     (SpiralLights_useFrame sampleArray zeroArray 0 0 (1/10) SpiralLights_mounted) = 4/5 \<and>
   photo_currentMixRef
     (PhotoFrameMesh_useFrame sampleItem 0 (Vector3 0 0 32) (1/2) PhotoFrameMesh_mounted) = 0 \<and>
   photo_currentMixRef
     (PhotoFrameMesh_useFrame sampleItem 0 (Vector3 0 0 32) (1/10) PhotoFrameMesh_mounted) = 4/5"
  by (simp add: Ornaments_useFrame_mix SpiralLights_useFrame_mix PhotoFrameMesh_useFrame_mix
        Ornaments_mounted_def Ornaments_init_def SpiralLights_mounted_def SpiralLights_init_def
        PhotoFrameMesh_mounted_def PhotoFrameMesh_init_def lerp_def)

section \<open>The first frame\<close>

lemma lerp_same: "lerp a a t = a"
  by (simp add: lerp_def)

lemma lerpVectors_one: "lerpVectors a b 1 = b"
  by (simp add: lerpVectors_def)

text \<open>
  C10, as the code has it. Every smoothed blend (of the instanced ornaments, of the light
  strip, of each photo object) starts at exactly 1; on the first frame every object is
  rendered at its target position when the external mix target is 1 in that frame, the
  value with which \<open>App\<close> starts.
\<close>

theorem initial_blend_formed:
  "orn_currentMixRef Ornaments_init = 1 \<and>
   spiral_currentMixRef SpiralLights_init = 1 \<and>
   photo_currentMixRef PhotoFrameMesh_init = 1 \<and>
   targetMix App_init = 1 \<and>
   (type \<noteq> PHOTO \<and> i < length data \<longrightarrow>
      map_option obj_position
        (Ornaments_rendered
           (Ornaments_useFrame type data 1 delta (Ornaments_init\<lparr>orn_meshRef := Some mesh\<rparr>)) i) =
        Some (targetPos (data ! i))) \<and>
   (k < SpiralLights_count \<longrightarrow>
      map_option obj_position
        (SpiralLights_rendered
           (SpiralLights_useFrame target chaos 1 time delta
              (SpiralLights_init\<lparr>spiral_meshRef := Some mesh\<rparr>)) k) =
        Some (pointAt target k)) \<and>
   map_option obj_position
     (photo_groupRef
        (PhotoFrameMesh_useFrame item 1 cam delta
           (PhotoFrameMesh_init\<lparr>photo_groupRef := Some g, photo_innerRef := Some rz\<rparr>))) =
     Some (targetPos item)"
proof (intro conjI impI)
  assume "type \<noteq> PHOTO \<and> i < length data"
  then show "map_option obj_position
        (Ornaments_rendered
           (Ornaments_useFrame type data 1 delta (Ornaments_init\<lparr>orn_meshRef := Some mesh\<rparr>)) i) =
        Some (targetPos (data ! i))"
    by (simp add: Ornaments_useFrame_rendered Ornaments_init_def lerp_same
          Ornaments_instance_def Let_def lerpVectors_one)
next
  assume "k < SpiralLights_count"
  then show "map_option obj_position
        (SpiralLights_rendered
           (SpiralLights_useFrame target chaos 1 time delta
              (SpiralLights_init\<lparr>spiral_meshRef := Some mesh\<rparr>)) k) =
        Some (pointAt target k)"
    by (simp add: SpiralLights_useFrame_rendered SpiralLights_init_def lerp_same
          SpiralLights_instance_def Let_def pointAt_def lerp_def)
next
  show "map_option obj_position
     (photo_groupRef
        (PhotoFrameMesh_useFrame item 1 cam delta
           (PhotoFrameMesh_init\<lparr>photo_groupRef := Some g, photo_innerRef := Some rz\<rparr>))) =
     Some (targetPos item)"
    by (simp add: PhotoFrameMesh_useFrame_position PhotoFrameMesh_init_def lerp_same
          lerpVectors_one)
qed (simp_all add: Ornaments_init_def SpiralLights_init_def PhotoFrameMesh_init_def App_init_def)

theorem initial_blend_formed_witness:
  "map_option obj_position
     (Ornaments_rendered (Ornaments_useFrame BALL [sampleItem] 1 (1/60) Ornaments_mounted) 0) =
     Some (Vector3 1 2 3) \<and>
   map_option obj_position
     (SpiralLights_rendered
        (SpiralLights_useFrame sampleArray zeroArray 1 0 (1/60) SpiralLights_mounted) 2) =
     Some (Vector3 6 7 8) \<and>
   map_option obj_position
     (photo_groupRef
        (PhotoFrameMesh_useFrame sampleItem 1 (Vector3 0 0 32) (1/60) PhotoFrameMesh_mounted)) =
     Some (Vector3 1 2 3)"
  using initial_blend_formed
    [where type = BALL and i = 0 and data = "[sampleItem]" and delta = "1/60"
       and mesh = Map.empty and k = 2 and target = sampleArray and chaos = zeroArray
       and time = 0 and item = sampleItem and cam = "Vector3 0 0 32"
       and g = "\<lparr>obj_position = Vector3 0 0 0, obj_orientation = Unrotated,
                  obj_scale = Vector3 1 1 1\<rparr>" and rz = 0]
  by (simp add: Ornaments_mounted_def SpiralLights_mounted_def PhotoFrameMesh_mounted_def
        SpiralLights_count_def sampleItem_def pointAt_def sampleArray_def)

text \<open>
  The claim as written fails when the mix target is not 1 on the first frame: with mix
  target 0 and a frame delta of 1/60 s the blend is 29/30 after the first frame, and the
  object is not drawn at its target position.
\<close>

theorem first_frame_counterexample:
  "orn_currentMixRef
     (Ornaments_useFrame BALL [sampleItem] 0 (1/60)
        (Ornaments_useLayoutEffect BALL [sampleItem] Ornaments_mounted)) = 29/30 \<and>
   map_option obj_position
     (Ornaments_rendered
        (Ornaments_useFrame BALL [sampleItem] 0 (1/60)
           (Ornaments_useLayoutEffect BALL [sampleItem] Ornaments_mounted)) 0) \<noteq>
     Some (targetPos sampleItem) \<and>
   map_option obj_position
     (photo_groupRef
        (PhotoFrameMesh_useFrame sampleItem 0 (Vector3 0 0 32) (1/60) PhotoFrameMesh_mounted)) \<noteq>
     Some (targetPos sampleItem)"
proof -
  have m: "orn_meshRef (Ornaments_useLayoutEffect BALL [sampleItem] Ornaments_mounted) \<noteq> None"
    by (simp add: Ornaments_useLayoutEffect_def Ornaments_mounted_def Ornaments_init_def)
  have c: "orn_currentMixRef (Ornaments_useLayoutEffect BALL [sampleItem] Ornaments_mounted) = 1"
    by (simp add: Ornaments_useLayoutEffect_def Ornaments_mounted_def Ornaments_init_def)
  have 1: "orn_currentMixRef
     (Ornaments_useFrame BALL [sampleItem] 0 (1/60)
        (Ornaments_useLayoutEffect BALL [sampleItem] Ornaments_mounted)) = 29/30"
    using m by (simp add: Ornaments_useFrame_mix c lerp_def)
  have r: "Ornaments_rendered
        (Ornaments_useFrame BALL [sampleItem] 0 (1/60)
           (Ornaments_useLayoutEffect BALL [sampleItem] Ornaments_mounted)) 0 =
        Some (Ornaments_instance BALL (29/30) sampleItem)"
    using m by (simp add: Ornaments_useFrame_rendered c lerp_def)
  have 2: "map_option obj_position
     (Ornaments_rendered
        (Ornaments_useFrame BALL [sampleItem] 0 (1/60)
           (Ornaments_useLayoutEffect BALL [sampleItem] Ornaments_mounted)) 0) \<noteq>
     Some (targetPos sampleItem)"
    unfolding r
    by (simp add: Ornaments_instance_def Let_def lerpVectors_def sampleItem_def)
  have 3: "map_option obj_position
     (photo_groupRef
        (PhotoFrameMesh_useFrame sampleItem 0 (Vector3 0 0 32) (1/60) PhotoFrameMesh_mounted)) \<noteq>
     Some (targetPos sampleItem)"
    by (simp add: PhotoFrameMesh_useFrame_position PhotoFrameMesh_mounted_def
          PhotoFrameMesh_init_def lerp_def lerpVectors_def sampleItem_def)
  from 1 2 3 show ?thesis by simp
qed

section \<open>Rotation momentum\<close>

lemma SceneController_useFrame_momentum:
  assumes "group_rotation_y s = Some ry"
  shows "velocity (SceneController_useFrame input delta s) =
           (velocity s + (px (currentInput (SceneController_useFrame input delta s)) - lastX s) * 0.5)
             * 0.95"
    and "group_rotation_y (SceneController_useFrame input delta s) =
           Some (ry + (0.002 + velocity (SceneController_useFrame input delta s)))"
    and "lastX (SceneController_useFrame input delta s) =
           px (currentInput (SceneController_useFrame input delta s))"
  using assms by (simp_all add: SceneController_useFrame_def Let_def)

lemma SceneController_useFrame_at_rest:
  assumes "group_rotation_y s = Some ry" "px (currentInput s) = px input" "lastX s = px input"
  shows "velocity (SceneController_useFrame input delta s) = 0.95 * velocity s"
    and "px (currentInput (SceneController_useFrame input delta s)) = px input"
    and "lastX (SceneController_useFrame input delta s) = px input"
    and "\<exists>ry'. group_rotation_y (SceneController_useFrame input delta s) = Some ry'"
  using assms
  by (simp_all add: SceneController_useFrame_def Let_def MathUtils_lerp_def algebra_simps)

lemma SceneController_run_at_rest:
  assumes "group_rotation_y s = Some ry" "px (currentInput s) = px input" "lastX s = px input"
  shows "velocity (SceneController_run input deltas s) = 0.95 ^ length deltas * velocity s"
  using assms
proof (induction deltas arbitrary: s ry)
  case Nil
  then show ?case by (simp add: SceneController_run_def)
next
  case (Cons d deltas)
  let ?s = "SceneController_useFrame input d s"
  obtain ry' where g: "group_rotation_y ?s = Some ry'"
    using SceneController_useFrame_at_rest(4) [OF Cons.prems] by blast
  have "velocity (SceneController_run input deltas ?s) = 0.95 ^ length deltas * velocity ?s"
    using g SceneController_useFrame_at_rest(2,3) [OF Cons.prems]
    by (rule Cons.IH)
  moreover have "velocity ?s = 0.95 * velocity s"
    using Cons.prems by (rule SceneController_useFrame_at_rest(1))
  moreover have "SceneController_run input (d # deltas) s = SceneController_run input deltas ?s"
    by (simp add: SceneController_run_def)
  ultimately show ?case by simp
qed

lemma decay_bound: "\<bar>0.95 ^ n * v\<bar> \<le> \<bar>v :: real\<bar>"
proof -
  have "(0.95 :: real) ^ n \<le> 1" by (rule power_le_one) simp_all
  moreover have "0 \<le> (0.95 :: real) ^ n" by simp
  ultimately have "0.95 ^ n * \<bar>v\<bar> \<le> 1 * \<bar>v\<bar>"
    by (intro mult_right_mono) simp_all
  then show ?thesis by (simp add: abs_mult)
qed

lemma decay_limit: "(\<lambda>n. 0.95 ^ n * (v :: real)) \<longlonglongrightarrow> 0"
proof -
  have "(\<lambda>n. (0.95 :: real) ^ n) \<longlonglongrightarrow> 0"
    by (rule LIMSEQ_realpow_zero) simp_all
  then have "(\<lambda>n. 0.95 ^ n * v) \<longlonglongrightarrow> 0 * v"
    by (rule tendsto_mult_right)
  then show ?thesis by simp
qed

text \<open>
  C8. With the rotating group attached, each frame adds to the velocity 0.5 times the change
  of the smoothed horizontal input since the last frame (which \<open>lastX\<close> records) and then
  multiplies it by 0.95, and turns the group by 0.002 plus the velocity. Hence, once the smoothed horizontal
  input rests at the pointer input, the velocity after \<open>n\<close> further frames is
  \<open>0.95 ^ n\<close> times what it was, whatever the frame deltas: it never exceeds its start
  in magnitude and tends to 0.
\<close>

theorem rotation_momentum:
  assumes "group_rotation_y s = Some ry"
  shows "velocity (SceneController_useFrame input delta s) =
           (velocity s + (px (currentInput (SceneController_useFrame input delta s)) - lastX s) * 0.5)
             * 0.95 \<and>
         group_rotation_y (SceneController_useFrame input delta s) =
           Some (ry + (0.002 + velocity (SceneController_useFrame input delta s))) \<and>
         lastX (SceneController_useFrame input delta s) =
           px (currentInput (SceneController_useFrame input delta s)) \<and>
         (px (currentInput s) = px input \<and> lastX s = px input \<longrightarrow>
            velocity (SceneController_run input deltas s) = 0.95 ^ length deltas * velocity s \<and>
            \<bar>velocity (SceneController_run input deltas s)\<bar> \<le> \<bar>velocity s\<bar> \<and>
            (\<lambda>n. velocity (SceneController_run input (replicate n delta) s)) \<longlonglongrightarrow> 0)"
proof (intro conjI impI)
  assume "px (currentInput s) = px input \<and> lastX s = px input"
  then have r: "px (currentInput s) = px input" "lastX s = px input" by simp_all
  have run: "\<And>ds. velocity (SceneController_run input ds s) = 0.95 ^ length ds * velocity s"
    using assms r by (rule SceneController_run_at_rest)
  show "velocity (SceneController_run input deltas s) = 0.95 ^ length deltas * velocity s"
    by (rule run)
  show "\<bar>velocity (SceneController_run input deltas s)\<bar> \<le> \<bar>velocity s\<bar>"
    by (simp only: run decay_bound)
  show "(\<lambda>n. velocity (SceneController_run input (replicate n delta) s)) \<longlonglongrightarrow> 0"
    using decay_limit [of "velocity s"] by (simp add: run)
qed (simp_all add: SceneController_useFrame_momentum [OF assms])

theorem rotation_momentum_witness:
  "velocity (SceneController_useFrame \<lparr>px = 3/5, py = 0\<rparr> (1/60) sampleScene) = 19/200 \<and>
   group_rotation_y (SceneController_useFrame \<lparr>px = 3/5, py = 0\<rparr> (1/60) sampleScene) =
     Some (97/1000) \<and>
   velocity (SceneController_run \<lparr>px = 3/5, py = 0\<rparr> [1/60, 5] sampleScene) = 361/4000"
  using rotation_momentum
    [of sampleScene 0 "\<lparr>px = 3/5, py = 0\<rparr>" "1/60" "[1/60, 5]"]
  by (simp add: sampleScene_def SceneController_useFrame_def Let_def MathUtils_lerp_def
        power2_eq_square)

section \<open>The photo population\<close>

lemma Ornaments_data_length:
  "length (Ornaments_data type count colors scale target rnd) = count"
  by (simp add: Ornaments_data_def)

lemma Ornaments_data_nth:
  "i < count \<Longrightarrow>
     Ornaments_data type count colors scale target rnd ! i =
       Ornaments_item type colors scale target (rnd i) i"
  by (simp add: Ornaments_data_def)

text \<open>
  C6. The PHOTO population has as many objects as the supplied image list when that list is
  not empty, and 10 when it is empty (or absent); so 5 images give 5 photo objects. The
  intake keeps the first 30 of the chosen files, so the list never exceeds 30 entries.
\<close>

theorem photo_population_size:
  "length (Ornaments_data PHOTO (photoCount (Some images)) colors scale target rnd) =
     (if images = [] then 10 else length images) \<and>
   length (Ornaments_data PHOTO (photoCount None) colors scale target rnd) = 10 \<and>
   (length images = 5 \<longrightarrow>
      length (Ornaments_data PHOTO (photoCount (Some images)) colors scale target rnd) = 5) \<and>
   (fs \<noteq> [] \<longrightarrow>
      userImages (handleFileChange createObjectURL (Some fs) s) = map createObjectURL (take 30 fs) \<and>
      length (userImages (handleFileChange createObjectURL (Some fs) s)) = min 30 (length fs)) \<and>
   (length (userImages s) \<le> 30 \<longrightarrow>
      length (userImages (handleFileChange createObjectURL files s)) \<le> 30)"
  by (auto simp add: Ornaments_data_length photoCount_def handleFileChange_def Let_def
        split: option.splits)

theorem photo_population_size_witness:
  "length (Ornaments_data PHOTO
             (photoCount (Some (userImages
                (handleFileChange (\<lambda>f. ''blob:'' @ f) (Some [''a'', ''b'', ''c'', ''d'', ''e''])
                   App_init))))
             None 1 zeroArray sampleDraws) = 5 \<and>
   length (Ornaments_data PHOTO (photoCount (Some (userImages App_init)))
             None 1 zeroArray sampleDraws) = 10 \<and>
   length (userImages (handleFileChange (\<lambda>f. ''blob:'' @ f) (Some (replicate 40 ''a'')) App_init))
     = 30"
proof -
  let ?url = "\<lambda>f. ''blob:'' @ f"
  let ?five = "[''a'', ''b'', ''c'', ''d'', ''e'']"
  let ?imgs = "userImages (handleFileChange ?url (Some ?five) App_init)"
  note five = photo_population_size
    [where images = ?imgs and colors = None and scale = 1 and target = zeroArray
       and rnd = sampleDraws and fs = ?five and createObjectURL = ?url and s = App_init
       and files = None]
  note none = photo_population_size
    [where images = "userImages App_init" and colors = None and scale = 1
       and target = zeroArray and rnd = sampleDraws and fs = "replicate 40 ''a''"
       and createObjectURL = ?url and s = App_init and files = None]
  have "length ?imgs = 5" using five by simp
  then have 1: "length (Ornaments_data PHOTO (photoCount (Some ?imgs)) None 1 zeroArray sampleDraws) = 5"
    using five by blast
  have "userImages App_init = []" by (simp add: App_init_def)
  then have 2: "length (Ornaments_data PHOTO (photoCount (Some (userImages App_init)))
                          None 1 zeroArray sampleDraws) = 10"
    using none by simp
  have 3: "length (userImages (handleFileChange ?url (Some (replicate 40 ''a'')) App_init)) = 30"
    using none by simp
  from 1 2 3 show ?thesis by simp
qed

section \<open>Chaos positions of the photos\<close>

text \<open>
  C9. The chaos position of every PHOTO object is cylindrical: with the three draws of
  \<open>Math.random()\<close> in \<open>[0, 1)\<close>, its angle about the vertical axis is \<open>2 * pi\<close> times the
  first (so it ranges over the full circle), its distance from the axis is 14 plus 4
  times the second (so it ranges over \<open>[14, 18)\<close>), and its height is 20 times the third
  less 10 (so it ranges over \<open>[-10, 10)\<close>). The distance from the axis exceeds the
  tree's base radius 7, also pushed out by the largest factor 1.15: no chaos position
  of a photo lies inside the tree.
\<close>

theorem photo_chaos_position_cylindrical:
  fixes rnd :: "nat \<Rightarrow> Draws"
  defines "theta \<equiv> \<lambda>i. r_theta (rnd i) * pi * 2"
      and "radius \<equiv> \<lambda>i. 14 + r_radius (rnd i) * 4"
      and "yHeight \<equiv> \<lambda>i. (r_height (rnd i) - 0.5) * 20"
  assumes "i < count"
      and "unit_draw (r_theta (rnd i))" "unit_draw (r_radius (rnd i))" "unit_draw (r_height (rnd i))"
  shows "chaosPos (Ornaments_data PHOTO count colors scale target rnd ! i) =
           Vector3 (radius i * cos (theta i)) (yHeight i) (radius i * sin (theta i)) \<and>
         0 \<le> theta i \<and> theta i < 2 * pi \<and>
         14 \<le> radius i \<and> radius i < 18 \<and>
         - 10 \<le> yHeight i \<and> yHeight i < 10 \<and>
         horizontalRadius (chaosPos (Ornaments_data PHOTO count colors scale target rnd ! i)) = radius i \<and>
         treeBaseRadius * 1.15 <
           horizontalRadius (chaosPos (Ornaments_data PHOTO count colors scale target rnd ! i))"
proof -
  let ?c = "chaosPos (Ornaments_data PHOTO count colors scale target rnd ! i)"
  have c: "?c = Vector3 (radius i * cos (theta i)) (yHeight i) (radius i * sin (theta i))"
    using assms(4)
    by (simp add: Ornaments_data_nth Ornaments_item_def Let_def theta_def radius_def yHeight_def)
  have th: "0 \<le> theta i" "theta i < 2 * pi"
    using assms(5) by (simp_all add: unit_draw_def theta_def)
  have ra: "14 \<le> radius i" "radius i < 18"
    using assms(6) by (simp_all add: unit_draw_def radius_def)
  have he: "- 10 \<le> yHeight i" "yHeight i < 10"
    using assms(7) by (simp_all add: unit_draw_def yHeight_def)
  have "(radius i * cos (theta i))\<^sup>2 + (radius i * sin (theta i))\<^sup>2 =
          (radius i)\<^sup>2 * ((cos (theta i))\<^sup>2 + (sin (theta i))\<^sup>2)"
    by (simp only: power_mult_distrib distrib_left)
  also have "\<dots> = (radius i)\<^sup>2" by (simp only: sin_cos_squared_add2 mult_1_right)
  finally have "horizontalRadius ?c = \<bar>radius i\<bar>"
    by (simp add: horizontalRadius_def c)
  with ra have hr: "horizontalRadius ?c = radius i" by simp
  have "treeBaseRadius * 1.15 < 14" by (simp add: treeBaseRadius_def)
  with hr ra have out: "treeBaseRadius * 1.15 < horizontalRadius ?c" by simp
  from c th ra he hr out show ?thesis by simp
qed

theorem photo_chaos_position_cylindrical_witness:
  "chaosPos (Ornaments_data PHOTO 5 None 1 zeroArray sampleDraws ! 3) = Vector3 16 (- 5) 0 \<and>
   horizontalRadius (chaosPos (Ornaments_data PHOTO 5 None 1 zeroArray sampleDraws ! 3)) = 16"
proof -
  have less: "(3::nat) < 5" by simp
  have d: "unit_draw (r_theta (sampleDraws 3))" "unit_draw (r_radius (sampleDraws 3))"
      "unit_draw (r_height (sampleDraws 3))"
    by (simp_all add: unit_draw_def sampleDraws_def)
  note cyl = photo_chaos_position_cylindrical
    [where i = 3 and count = 5 and rnd = sampleDraws and colors = None and scale = 1
       and target = zeroArray, OF less d]
  from cyl have "chaosPos (Ornaments_data PHOTO 5 None 1 zeroArray sampleDraws ! 3) =
      Vector3 ((14 + r_radius (sampleDraws 3) * 4) * cos (r_theta (sampleDraws 3) * pi * 2))
              ((r_height (sampleDraws 3) - 0.5) * 20)
              ((14 + r_radius (sampleDraws 3) * 4) * sin (r_theta (sampleDraws 3) * pi * 2))"
    by blast
  then have 1: "chaosPos (Ornaments_data PHOTO 5 None 1 zeroArray sampleDraws ! 3) = Vector3 16 (- 5) 0"
    by (simp add: sampleDraws_def)
  from cyl have "horizontalRadius (chaosPos (Ornaments_data PHOTO 5 None 1 zeroArray sampleDraws ! 3)) =
      14 + r_radius (sampleDraws 3) * 4"
    by blast
  then have 2: "horizontalRadius (chaosPos (Ornaments_data PHOTO 5 None 1 zeroArray sampleDraws ! 3)) = 16"
    by (simp add: sampleDraws_def)
  from 1 2 show ?thesis by (rule conjI)
qed

end
